theory Spec2Isabelle
  imports Complex_Main
begin

section \<open>Python values used by the terrain code\<close>

text \<open>
  The exceptions the modelled code can raise. All of them are subclasses of Python's
  \<open>Exception\<close>, which is what the pipeline's \<open>except Exception\<close> catches.
\<close>

datatype error =
    ValueError
  | KeyError
  | IndexError
  | ZeroDivisionError
  | RequestException
  | UnidentifiedImageError

definition and_then :: "error + 'a \<Rightarrow> ('a \<Rightarrow> error + 'b) \<Rightarrow> error + 'b" where
  "and_then m f = (case m of Inl e \<Rightarrow> Inl e | Inr v \<Rightarrow> f v)"

text \<open>
  A Python \<open>float\<close>, idealised: a finite value is a real number, computed exactly (no
  rounding, no overflow, no NaN), but the sign of zero is kept, as IEEE 754 and
  \<open>math.atan2\<close> distinguish \<open>0.0\<close> from \<open>-0.0\<close>. \<open>Fl 0\<close> is \<open>0.0\<close>, \<open>NegZero\<close> is \<open>-0.0\<close>.
\<close>

datatype pyfloat = Fl real | NegZero

fun val :: "pyfloat \<Rightarrow> real" where
  "val (Fl x) = x"
| "val NegZero = 0"

fun sign_bit :: "pyfloat \<Rightarrow> bool" where
  "sign_bit (Fl x) = (x < 0)"
| "sign_bit NegZero = True"

text \<open>The float of value \<open>r\<close>; when \<open>r\<close> is zero, \<open>s\<close> says whether it is \<open>-0.0\<close>.\<close>

definition mk :: "real \<Rightarrow> bool \<Rightarrow> pyfloat" where
  "mk r s = (if r = 0 \<and> s then NegZero else Fl r)"

definition float_of_int :: "int \<Rightarrow> pyfloat" where
  "float_of_int i = Fl (of_int i)"

fun fneg :: "pyfloat \<Rightarrow> pyfloat" where
  "fneg (Fl x) = (if x = 0 then NegZero else Fl (- x))"
| "fneg NegZero = Fl 0"

text \<open>
  IEEE 754 sums: a zero sum is \<open>-0.0\<close> only when both operands are negative zeros;
  \<open>x + (-x)\<close> is \<open>0.0\<close>. A zero product or quotient takes the exclusive or of the signs.
\<close>

definition fadd :: "pyfloat \<Rightarrow> pyfloat \<Rightarrow> pyfloat" where
  "fadd a b = mk (val a + val b) (sign_bit a \<and> sign_bit b)"

definition fsub :: "pyfloat \<Rightarrow> pyfloat \<Rightarrow> pyfloat" where
  "fsub a b = fadd a (fneg b)"

definition fmul :: "pyfloat \<Rightarrow> pyfloat \<Rightarrow> pyfloat" where
  "fmul a b = mk (val a * val b) (sign_bit a \<noteq> sign_bit b)"

definition fdiv :: "pyfloat \<Rightarrow> pyfloat \<Rightarrow> error + pyfloat" where
  "fdiv a b =
     (if val b = 0 then Inl ZeroDivisionError
      else Inr (mk (val a / val b) (sign_bit a \<noteq> sign_bit b)))"

text \<open>\<open>a / b\<close> on two Python ints is true division: the result is a float.\<close>

definition int_truediv :: "int \<Rightarrow> int \<Rightarrow> error + pyfloat" where
  "int_truediv a b =
     (if b = 0 then Inl ZeroDivisionError else Inr (Fl (of_int a / of_int b)))"

definition flt_lt :: "pyfloat \<Rightarrow> pyfloat \<Rightarrow> bool" where
  "flt_lt a b = (val a < val b)"

section \<open>Constants\<close>

definition TILE_SIZE :: int where
  "TILE_SIZE = 256"

definition ZOOM_LEVEL :: int where
  "ZOOM_LEVEL = 15"

definition METERS_TO_FEET :: pyfloat where
  "METERS_TO_FEET = Fl (328084 / 100000)"

section \<open>Elevation decoder\<close>

text \<open>
  \<^verbatim>\<open>def decode_terrarium(r, g, b): return (r * 256 + g + b / 256) - 32768\<close>
  The channels are Python ints: \<open>r * 256 + g\<close> is an int, \<open>b / 256\<close> a float, and the
  sum and the difference are float operations.
\<close>

definition decode_terrarium :: "int \<Rightarrow> int \<Rightarrow> int \<Rightarrow> error + pyfloat" where
  "decode_terrarium r g b =
     and_then (int_truediv b 256) (\<lambda>q.
       Inr (fsub (fadd (float_of_int (r * 256 + g)) q) (float_of_int 32768)))"

definition channel :: "int \<Rightarrow> bool" where
  "channel c = (0 \<le> c \<and> c \<le> 255)"

section \<open>Tiles and the tile cache\<close>

type_synonym rgb = "int \<times> int \<times> int"

text \<open>A decoded RGB image (\<open>Image.open(...).convert("RGB")\<close>): its size and its pixels.\<close>

record tile =
  width :: int
  height :: int
  pixel :: "int \<Rightarrow> int \<Rightarrow> rgb"

text \<open>
  \<open>tile.load()[x, y]\<close>. Pillow counts a negative index from the far edge and raises
  \<open>IndexError\<close> for a position outside the image.
\<close>

definition load_getitem :: "tile \<Rightarrow> int \<Rightarrow> int \<Rightarrow> error + rgb" where
  "load_getitem t x y =
     (let x' = (if x < 0 then width t + x else x);
          y' = (if y < 0 then height t + y else y)
      in if x' < 0 \<or> width t \<le> x' \<or> y' < 0 \<or> height t \<le> y' then Inl IndexError
         else Inr (pixel t x' y'))"

type_synonym key = "int \<times> int \<times> int"

text \<open>
  The state \<open>fetch_tile\<close> works on: the \<open>cache\<close> dictionary it is given, and the
  requests sent to the tile server so far (oldest first), which stand for the network
  activity. The tile server is a parameter \<open>remote\<close>: \<open>remote n key\<close> is what lines
  143 to 147 (\<open>requests.get\<close>, \<open>raise_for_status\<close>, \<open>Image.open\<close>, \<open>convert\<close>) yield for
  \<open>key\<close> when \<open>n\<close> requests were sent before, a tile or the exception raised.
\<close>

record world =
  tile_cache :: "key \<rightharpoonup> tile"
  requests :: "key list"

definition fetch_tile ::
  "(nat \<Rightarrow> key \<Rightarrow> error + tile) \<Rightarrow> int \<Rightarrow> int \<Rightarrow> int \<Rightarrow> world \<Rightarrow> (error + tile) \<times> world"
where
  "fetch_tile remote z x y w =
     (let key = (z, x, y) in
      case tile_cache w key of
        Some img \<Rightarrow> (Inr img, w)
      | None \<Rightarrow>
          (let w1 = w\<lparr>requests := requests w @ [key]\<rparr> in
           case remote (length (requests w)) key of
             Inl e \<Rightarrow> (Inl e, w1)
           | Inr img \<Rightarrow> (Inr img, w1\<lparr>tile_cache := (tile_cache w1)(key \<mapsto> img)\<rparr>)))"

section \<open>Neighborhood assembler\<close>

text \<open>
  Lines 160 to 170 of \<open>get_elevation_grid\<close>: the candidate pixel of offset \<open>(dx, dy)\<close>
  and the four boundary checks, in the order of the source (they are four separate
  \<open>if\<close> statements, not an \<open>elif\<close> chain). The result is \<open>(ttx, tty, x, y)\<close>.
\<close>

definition resolve_neighbor ::
  "int \<Rightarrow> int \<Rightarrow> int \<Rightarrow> int \<Rightarrow> int \<Rightarrow> int \<Rightarrow> int \<times> int \<times> int \<times> int"
where
  "resolve_neighbor tx ty ix iy dx dy =
     (let x = ix + dx; y = iy + dy; ttx = tx; tty = ty;
          (ttx, x) = (if x < 0 then (ttx - 1, x + TILE_SIZE) else (ttx, x));
          (tty, y) = (if y < 0 then (tty - 1, y + TILE_SIZE) else (tty, y));
          (ttx, x) = (if TILE_SIZE \<le> x then (ttx + 1, x - TILE_SIZE) else (ttx, x));
          (tty, y) = (if TILE_SIZE \<le> y then (tty + 1, y - TILE_SIZE) else (tty, y))
      in (ttx, tty, x, y))"

text \<open>Python's \<open>e[i][j]\<close> and \<open>e[i][j] = v\<close> on a list of lists, for indices from 0.\<close>

definition at2 :: "'a list list \<Rightarrow> nat \<Rightarrow> nat \<Rightarrow> error + 'a" where
  "at2 e i j =
     (if i < length e then (if j < length (e ! i) then Inr (e ! i ! j) else Inl IndexError)
      else Inl IndexError)"

definition set2 :: "'a list list \<Rightarrow> nat \<Rightarrow> nat \<Rightarrow> 'a \<Rightarrow> error + 'a list list" where
  "set2 e i j v =
     (if i < length e then
        (if j < length (e ! i) then Inr (e[i := (e ! i)[j := v]]) else Inl IndexError)
      else Inl IndexError)"

text \<open>
  The body of the two loops (lines 160 to 174) for one offset: resolve the neighbor,
  get its tile, read and decode the pixel, store it at \<open>grid[dy+1][dx+1]\<close>.
\<close>

definition sample_neighbor ::
  "(nat \<Rightarrow> key \<Rightarrow> error + tile) \<Rightarrow> int \<Rightarrow> int \<Rightarrow> int \<Rightarrow> int \<Rightarrow> int \<Rightarrow> int \<times> int
     \<Rightarrow> pyfloat list list \<Rightarrow> world \<Rightarrow> (error + pyfloat list list) \<times> world"
where
  "sample_neighbor remote z tx ty ix iy off grid w =
     (case off of (dy, dx) \<Rightarrow>
      case resolve_neighbor tx ty ix iy dx dy of (ttx, tty, x, y) \<Rightarrow>
      case fetch_tile remote z ttx tty w of
        (Inl e, w') \<Rightarrow> (Inl e, w')
      | (Inr img, w') \<Rightarrow>
          (and_then (load_getitem img x y) (\<lambda>(r, g, b).
           and_then (decode_terrarium r g b) (\<lambda>v.
           set2 grid (nat (dy + 1)) (nat (dx + 1)) v)), w'))"

text \<open>\<open>for dy in range(-1, 2): for dx in range(-1, 2)\<close>, as the list of \<open>(dy, dx)\<close>.\<close>

definition offsets :: "(int \<times> int) list" where
  "offsets = concat (map (\<lambda>dy. map (\<lambda>dx. (dy, dx)) [-1, 0, 1]) [-1, 0, 1])"

fun grid_loop ::
  "(nat \<Rightarrow> key \<Rightarrow> error + tile) \<Rightarrow> int \<Rightarrow> int \<Rightarrow> int \<Rightarrow> int \<Rightarrow> int \<Rightarrow> (int \<times> int) list
     \<Rightarrow> pyfloat list list \<Rightarrow> world \<Rightarrow> (error + pyfloat list list) \<times> world"
where
  "grid_loop remote z tx ty ix iy [] grid w = (Inr grid, w)"
| "grid_loop remote z tx ty ix iy (off # rest) grid w =
     (case sample_neighbor remote z tx ty ix iy off grid w of
        (Inl e, w') \<Rightarrow> (Inl e, w')
      | (Inr grid', w') \<Rightarrow> grid_loop remote z tx ty ix iy rest grid' w')"

text \<open>
  \<open>get_elevation_grid\<close>. The projection \<open>latlon_to_pixel\<close> is a parameter \<open>proj\<close>: its
  result, and whether it raises, is decided by the rounding of \<open>math.tan\<close>, \<open>math.cos\<close>
  and \<open>math.log\<close>, which real arithmetic does not describe. \<open>//\<close> and \<open>%\<close> on Python
  ints are floor division and its remainder, as \<open>div\<close> and \<open>mod\<close> on \<open>int\<close>. The grid
  starts as \<open>[[0]*3 for _ in range(3)]\<close>.
\<close>

definition get_elevation_grid ::
  "(pyfloat \<Rightarrow> pyfloat \<Rightarrow> int \<Rightarrow> error + int \<times> int) \<Rightarrow> (nat \<Rightarrow> key \<Rightarrow> error + tile)
     \<Rightarrow> pyfloat \<Rightarrow> pyfloat \<Rightarrow> int \<Rightarrow> world \<Rightarrow> (error + pyfloat list list) \<times> world"
where
  "get_elevation_grid proj remote lat lon z w =
     (case proj lat lon z of
        Inl e \<Rightarrow> (Inl e, w)
      | Inr (px, py) \<Rightarrow>
          (let tx = px div TILE_SIZE; ty = py div TILE_SIZE;
               ix = px mod TILE_SIZE; iy = py mod TILE_SIZE;
               grid = replicate 3 (replicate 3 (float_of_int 0))
           in grid_loop remote z tx ty ix iy offsets grid w))"






definition in_tile :: "int \<Rightarrow> bool" where
  "in_tile c = (0 \<le> c \<and> c < TILE_SIZE)"

definition unit_offset :: "int \<Rightarrow> bool" where
  "unit_offset d = (d = -1 \<or> d = 0 \<or> d = 1)"

section \<open>Slope and aspect\<close>

text \<open>
  The \<open>math\<close> functions on the idealised floats. \<open>math.sqrt\<close> raises \<open>ValueError\<close> on a
  negative argument and keeps \<open>-0.0\<close>; \<open>math.atan\<close> keeps the sign of zero;
  \<open>math.degrees(x)\<close> is \<open>x * (180 / pi)\<close>; \<open>x ** 2\<close> is \<open>x * x\<close>.
\<close>

fun math_sqrt :: "pyfloat \<Rightarrow> error + pyfloat" where
  "math_sqrt (Fl x) = (if x < 0 then Inl ValueError else Inr (Fl (sqrt x)))"
| "math_sqrt NegZero = Inr NegZero"

fun math_atan :: "pyfloat \<Rightarrow> pyfloat" where
  "math_atan (Fl x) = Fl (arctan x)"
| "math_atan NegZero = NegZero"

definition math_degrees :: "pyfloat \<Rightarrow> pyfloat" where
  "math_degrees x = fmul x (Fl (180 / pi))"

definition fpow2 :: "pyfloat \<Rightarrow> pyfloat" where
  "fpow2 x = fmul x x"

text \<open>\<open>copysign(m, y)\<close> for a magnitude \<open>m \<ge> 0\<close>.\<close>

definition copysign :: "real \<Rightarrow> pyfloat \<Rightarrow> pyfloat" where
  "copysign m y = (if sign_bit y then fneg (Fl m) else Fl m)"

text \<open>
  \<open>math.atan2(y, x)\<close>, the angle of the point \<open>(x, y)\<close> in \<open>[-pi, pi]\<close>. When \<open>y\<close> is a
  zero the sign of \<open>x\<close> decides, and a zero \<open>x\<close> has a sign too:
  \<open>atan2(\<plusminus>0, x) = \<plusminus>0\<close> for \<open>x\<close> positive or \<open>+0\<close>, and \<open>\<plusminus>pi\<close> for \<open>x\<close> negative or \<open>-0\<close>.
\<close>

definition math_atan2 :: "pyfloat \<Rightarrow> pyfloat \<Rightarrow> pyfloat" where
  "math_atan2 y x =
     (if val y = 0 then (if sign_bit x then copysign pi y else copysign 0 y)
      else if val x = 0 then copysign (pi / 2) y
      else if 0 < val x then Fl (arctan (val y / val x))
      else if 0 < val y then Fl (arctan (val y / val x) + pi)
      else Fl (arctan (val y / val x) - pi))"

text \<open>
  Python's \<open>round\<close> on a float rounds half to even. \<open>round(x, n)\<close> is a float.
\<close>

definition round_half_even :: "real \<Rightarrow> int" where
  "round_half_even r =
     (let f = \<lfloor>r\<rfloor>; d = r - of_int f
      in if d < 1 / 2 then f else if 1 / 2 < d then f + 1
         else if even f then f else f + 1)"

definition py_round :: "pyfloat \<Rightarrow> nat \<Rightarrow> pyfloat" where
  "py_round x n = mk (of_int (round_half_even (val x * 10 ^ n)) / 10 ^ n) (sign_bit x)"

definition py_round_int :: "pyfloat \<Rightarrow> int" where
  "py_round_int x = round_half_even (val x)"

definition calculate_slope_aspect :: "pyfloat list list \<Rightarrow> error + pyfloat \<times> pyfloat" where
  "calculate_slope_aspect e =
     and_then (at2 e 0 2) (\<lambda>e02. and_then (at2 e 1 2) (\<lambda>e12. and_then (at2 e 2 2) (\<lambda>e22.
     and_then (at2 e 0 0) (\<lambda>e00. and_then (at2 e 1 0) (\<lambda>e10. and_then (at2 e 2 0) (\<lambda>e20.
     and_then (fdiv (fsub (fadd (fadd e02 (fmul (float_of_int 2) e12)) e22)
                          (fadd (fadd e00 (fmul (float_of_int 2) e10)) e20))
                    (float_of_int 8)) (\<lambda>dzdx.
     and_then (at2 e 2 1) (\<lambda>e21. and_then (at2 e 0 1) (\<lambda>e01.
     and_then (fdiv (fsub (fadd (fadd e20 (fmul (float_of_int 2) e21)) e22)
                          (fadd (fadd e00 (fmul (float_of_int 2) e01)) e02))
                    (float_of_int 8)) (\<lambda>dzdy.
     and_then (math_sqrt (fadd (fpow2 dzdx) (fpow2 dzdy))) (\<lambda>mag.
     let slope = math_degrees (math_atan mag);
         aspect = math_degrees (math_atan2 dzdy (fneg dzdx));
         aspect = (if flt_lt aspect (float_of_int 0) then fadd aspect (float_of_int 360)
                   else aspect)
     in Inr (py_round slope 2, py_round aspect 1))))))))))))"

section \<open>The per-observation pipeline\<close>

text \<open>A row of \<open>csv.DictReader\<close>: a dictionary from column names to strings.\<close>

type_synonym row = "string \<rightharpoonup> string"

definition getitem :: "row \<Rightarrow> string \<Rightarrow> error + string" where
  "getitem r k = (case r k of None \<Rightarrow> Inl KeyError | Some v \<Rightarrow> Inr v)"

text \<open>
  What the pipeline calls outside this file, as parameters. Each yields a value or the
  exception raised:
  \<^item> \<open>py_float\<close> is \<open>float(s)\<close>, \<open>strptime\<close> is \<open>datetime.strptime(s, "%Y-%m-%d").date()\<close>;
  \<^item> \<open>elevation_api lat lon\<close> is \<open>r.json()["elevation"][0]\<close> of the elevation request
    in \<open>get_elevation\<close>, after \<open>raise_for_status\<close>;
  \<^item> \<open>soil_api lat lon date\<close> is the result of \<open>fetch_soil_data\<close>, the soil JSON and
    the URL it was requested from;
  \<^item> \<open>soil_fields\<close> is the part of the output record read from the soil JSON (lines 237
    to 249: \<open>dates\<close>, \<open>soil_temperature\<close>, \<open>soil_moisture\<close>);
  \<^item> \<open>project\<close> is \<open>latlon_to_pixel\<close> and \<open>tile_source\<close> the tile server.
\<close>

record ('d, 's, 'f) services =
  py_float :: "string \<Rightarrow> error + pyfloat"
  strptime :: "string \<Rightarrow> error + 'd"
  elevation_api :: "pyfloat \<Rightarrow> pyfloat \<Rightarrow> error + pyfloat"
  soil_api :: "pyfloat \<Rightarrow> pyfloat \<Rightarrow> 'd \<Rightarrow> error + 's \<times> string"
  soil_fields :: "'s \<Rightarrow> error + 'f"
  project :: "pyfloat \<Rightarrow> pyfloat \<Rightarrow> int \<Rightarrow> error + int \<times> int"
  tile_source :: "nat \<Rightarrow> key \<Rightarrow> error + tile"

text \<open>\<open>get_elevation\<close>: the elevation in meters, converted to feet and rounded to an int.\<close>

definition get_elevation ::
  "(pyfloat \<Rightarrow> pyfloat \<Rightarrow> error + pyfloat) \<Rightarrow> pyfloat \<Rightarrow> pyfloat \<Rightarrow> error + int"
where
  "get_elevation api lat lon =
     and_then (api lat lon) (\<lambda>m. Inr (py_round_int (fmul m METERS_TO_FEET)))"

text \<open>
  The output record. \<open>coordinates\<close> keeps the two floats that the source formats as
  \<open>f"{lat}, {lon}"\<close>; \<open>soil\<close> holds the fields read from the soil JSON.
\<close>

record 'f observation =
  observation_url :: string
  date_used :: string
  coordinates :: "pyfloat \<times> pyfloat"
  elevation_ft :: int
  soil :: 'f
  open_meteo_api_url :: string
  aws_elevation_ft :: int
  slope_deg :: pyfloat
  slope_aspect_deg :: pyfloat

text \<open>
  \<open>row["observed_on"] or row["created_at"].split(" ")[0]\<close>: the first string when it is
  not empty, else the part of the second before its first space.
\<close>

definition date_str_of :: "row \<Rightarrow> error + string" where
  "date_str_of r =
     and_then (getitem r ''observed_on'') (\<lambda>observed.
       if observed \<noteq> [] then Inr observed
       else and_then (getitem r ''created_at'') (\<lambda>created.
              Inr (takeWhile (\<lambda>c. c \<noteq> CHR '' '') created)))"

text \<open>
  The body of the \<open>try\<close> (lines 220 to 255), up to the record that line 257 writes.
  Only \<open>get_elevation_grid\<close> changes the state: the tile cache and the requests sent.
\<close>

definition enrich_row ::
  "('d, 's, 'f) services \<Rightarrow> row \<Rightarrow> world \<Rightarrow> (error + 'f observation) \<times> world"
where
  "enrich_row svc r w =
     (case
        and_then (getitem r ''latitude'') (\<lambda>lat_s. and_then (py_float svc lat_s) (\<lambda>lat.
        and_then (getitem r ''longitude'') (\<lambda>lon_s. and_then (py_float svc lon_s) (\<lambda>lon.
        and_then (date_str_of r) (\<lambda>date_str.
        and_then (strptime svc date_str) (\<lambda>obs_date.
        and_then (get_elevation (elevation_api svc) lat lon) (\<lambda>elev.
        and_then (soil_api svc lat lon obs_date) (\<lambda>(soil_json, api_url).
        Inr (lat, lon, date_str, elev, soil_json, api_url)))))))))
      of
        Inl e \<Rightarrow> (Inl e, w)
      | Inr (lat, lon, date_str, elev, soil_json, api_url) \<Rightarrow>
          (case get_elevation_grid (project svc) (tile_source svc) lat lon ZOOM_LEVEL w of
             (Inl e, w') \<Rightarrow> (Inl e, w')
           | (Inr grid, w') \<Rightarrow>
               (and_then (at2 grid 1 1) (\<lambda>center.
                and_then (calculate_slope_aspect grid) (\<lambda>(slope, aspect).
                and_then (getitem r ''url'') (\<lambda>url.
                and_then (soil_fields svc soil_json) (\<lambda>fields.
                Inr \<lparr>observation_url = url, date_used = date_str,
                     coordinates = (lat, lon), elevation_ft = elev, soil = fields,
                     open_meteo_api_url = api_url,
                     aws_elevation_ft = py_round_int (fmul center METERS_TO_FEET),
                     slope_deg = slope, slope_aspect_deg = aspect\<rparr>)))), w')))"

text \<open>
  The state of the loop over the rows (lines 217 to 263): the tile cache and request
  log, the records written to the output file, the exceptions reported by the
  \<open>except Exception\<close> handler, and the count of \<open>pbar.update(1)\<close>.
\<close>

record 'f run =
  net :: world
  written :: "'f observation list"
  reported :: "error list"
  progress :: nat

fun process_rows :: "('d, 's, 'f) services \<Rightarrow> row list \<Rightarrow> 'f run \<Rightarrow> 'f run" where
  "process_rows svc [] st = st"
| "process_rows svc (r # rest) st =
     (case enrich_row svc r (net st) of
        (Inr obs, w) \<Rightarrow>
          process_rows svc rest
            (st\<lparr>net := w, written := written st @ [obs], progress := progress st + 1\<rparr>)
      | (Inl e, w) \<Rightarrow>
          process_rows svc rest
            (st\<lparr>net := w, reported := reported st @ [e], progress := progress st + 1\<rparr>))"

text \<open>The result of the \<open>try\<close> body for each row in turn, the state passed along.\<close>

fun outcomes ::
  "('d, 's, 'f) services \<Rightarrow> row list \<Rightarrow> world \<Rightarrow> (error + 'f observation) list" where
  "outcomes svc [] w = []"
| "outcomes svc (r # rest) w =
     (case enrich_row svc r w of (res, w') \<Rightarrow> res # outcomes svc rest w')"

section \<open>Example inputs\<close>

text \<open>A tile of the expected size whose pixels all encode the elevation 0.\<close>

definition sea_tile :: tile where
  "sea_tile = \<lparr>width = 256, height = 256, pixel = (\<lambda>x y. (128, 0, 0))\<rparr>"

text \<open>A tile server that always answers with \<open>sea_tile\<close>.\<close>

definition sea_remote :: "nat \<Rightarrow> key \<Rightarrow> error + tile" where
  "sea_remote n k = Inr sea_tile"

text \<open>An empty cache, and a cache that already holds the tile of key \<open>(15, 3, 4)\<close>.\<close>

definition cold_world :: world where
  "cold_world = \<lparr>tile_cache = Map.empty, requests = []\<rparr>"

definition warm_world :: world where
  "warm_world = \<lparr>tile_cache = [(15, 3, 4) \<mapsto> sea_tile], requests = []\<rparr>"

text \<open>
  Elevation grids: flat ground at 5 m; ground rising to the east (east column 8, west
  column -8, middle column 0); and ground whose west neighbor is 8 m and whose north
  neighbor is 1/256 m above an otherwise level surface.
\<close>

definition flat_grid :: "pyfloat list list" where
  "flat_grid = [[Fl 5, Fl 5, Fl 5], [Fl 5, Fl 5, Fl 5], [Fl 5, Fl 5, Fl 5]]"

definition east_grid :: "pyfloat list list" where
  "east_grid = [[Fl (- 8), Fl 0, Fl 8], [Fl (- 8), Fl 0, Fl 8], [Fl (- 8), Fl 0, Fl 8]]"

definition seam_grid :: "pyfloat list list" where
  "seam_grid = [[Fl 0, Fl (1 / 256), Fl 0], [Fl 8, Fl 0, Fl 0], [Fl 0, Fl 0, Fl 0]]"

text \<open>
  Services for a run: coordinates are read from two known strings, every date parses,
  the elevation service answers 100 m, the soil service answers, the projection
  yields the pixel \<open>(1000, 2000)\<close> and every tile is \<open>sea_tile\<close>.
\<close>

definition demo_services :: "(string, unit, unit) services" where
  "demo_services =
     \<lparr>py_float = (\<lambda>s. if s = ''47.5'' then Inr (Fl (95 / 2))
                        else if s = ''-121.5'' then Inr (Fl (- (243 / 2)))
                        else Inl ValueError),
      strptime = (\<lambda>s. Inr s),
      elevation_api = (\<lambda>lat lon. Inr (Fl 100)),
      soil_api = (\<lambda>lat lon d. Inr ((), ''archive'')),
      soil_fields = (\<lambda>j. Inr ()),
      project = (\<lambda>lat lon z. Inr (1000, 2000)),
      tile_source = sea_remote\<rparr>"

text \<open>A row whose latitude is not a number, and a complete row.\<close>

definition bad_row :: row where
  "bad_row = [''latitude'' \<mapsto> ''north'', ''longitude'' \<mapsto> ''-121.5'',
              ''observed_on'' \<mapsto> ''2024-05-01'', ''created_at'' \<mapsto> ''2024-05-02 10:00'',
              ''url'' \<mapsto> ''obs/1'']"

definition good_row :: row where
  "good_row = [''latitude'' \<mapsto> ''47.5'', ''longitude'' \<mapsto> ''-121.5'',
               ''observed_on'' \<mapsto> [], ''created_at'' \<mapsto> ''2024-05-02 10:00'',
               ''url'' \<mapsto> ''obs/2'']"

definition start_run :: "unit run" where
  "start_run = \<lparr>net = cold_world, written = [], reported = [], progress = 0\<rparr>"



section \<open>Properties of the elevation decoder\<close>

lemma decode_terrarium_value:
  "decode_terrarium r g b =
     Inr (Fl (of_int r * 256 + of_int g + of_int b / 256 - 32768))"
  by (simp add: decode_terrarium_def and_then_def int_truediv_def fsub_def fadd_def
      float_of_int_def mk_def)

text \<open>
  Claim C6. For channels \<open>r\<close>, \<open>g\<close>, \<open>b\<close> in \<open>[0, 255]\<close> the decoder raises nothing and
  returns the finite value \<open>(r * 256 + g + b / 256) - 32768\<close>, a function of its
  arguments alone; \<open>decode(128, 0, 0)\<close> is \<open>0.0\<close>.
\<close>

theorem decode_terrarium_exact:
  assumes "channel r" and "channel g" and "channel b"
  shows "decode_terrarium r g b =
           Inr (Fl (of_int r * 256 + of_int g + of_int b / 256 - 32768))
         \<and> decode_terrarium 128 0 0 = Inr (Fl 0)"
  by (simp add: decode_terrarium_value)

theorem decode_terrarium_exact_witness:
  "channel 200 \<and> channel 17 \<and> channel 64
   \<and> decode_terrarium 200 17 64 = Inr (Fl (18449 + 1 / 4))
   \<and> decode_terrarium 128 0 0 = Inr (Fl 0)"
  using decode_terrarium_exact [of 200 17 64] by (simp add: channel_def)

lemma digit_split:
  fixes q b q' b' :: int
  assumes "0 \<le> b" "b \<le> 255" "0 \<le> b'" "b' \<le> 255" "q * 256 + b = q' * 256 + b'"
  shows "q = q' \<and> b = b'"
proof -
  have "q \<le> q'" using assms by linarith
  moreover have "q' \<le> q" using assms by linarith
  ultimately have "q = q'" by simp
  with assms(5) show ?thesis by simp
qed

lemma base256_inj:
  fixes r g b r' g' b' :: int
  assumes "0 \<le> g" "g \<le> 255" "0 \<le> b" "b \<le> 255"
    and "0 \<le> g'" "g' \<le> 255" "0 \<le> b'" "b' \<le> 255"
    and eq: "r * 65536 + g * 256 + b = r' * 65536 + g' * 256 + b'"
  shows "r = r' \<and> g = g' \<and> b = b'"
proof -
  have "(r * 256 + g) * 256 + b = (r' * 256 + g') * 256 + b'"
    using eq by simp
  then have rg: "r * 256 + g = r' * 256 + g'" and b: "b = b'"
    using digit_split [of b b' "r * 256 + g" "r' * 256 + g'"] assms(3,4,7,8) by blast+
  from rg have "r = r' \<and> g = g'"
    using digit_split [of g g' r r'] assms(1,2,5,6) by blast
  with b show ?thesis by simp
qed

lemma decode_scaled:
  "of_int r * 256 + of_int g + of_int b / 256 - 32768
     = (of_int (r * 65536 + g * 256 + b - 8388608) :: real) / 256"
  by simp

text \<open>
  Claim C10. On channels in \<open>[0, 255]\<close> the decoded elevation is an integer multiple of
  \<open>1/256\<close>, lies in \<open>[-32768, 32767 + 255/256]\<close>, and two channel triples that decode to
  the same elevation are the same triple.
\<close>

theorem decode_terrarium_lattice:
  assumes "channel r" "channel g" "channel b" "channel r'" "channel g'" "channel b'"
  shows "\<exists>v. decode_terrarium r g b = Inr (Fl v)
            \<and> (\<exists>k::int. v = of_int k / 256)
            \<and> - 32768 \<le> v \<and> v \<le> 32767 + 255 / 256
            \<and> (decode_terrarium r g b = decode_terrarium r' g' b'
                 \<longrightarrow> r = r' \<and> g = g' \<and> b = b')"
proof -
  let ?v = "of_int r * 256 + of_int g + of_int b / 256 - 32768 :: real"
  have v: "decode_terrarium r g b = Inr (Fl ?v)"
    by (rule decode_terrarium_value)
  have k: "\<exists>k::int. ?v = of_int k / 256"
    using decode_scaled [of r g b] by blast
  have lo: "- 32768 \<le> ?v" using assms(1-3) by (simp add: channel_def)
  have "of_int r * 256 + of_int g + of_int b / 256 \<le> (255 * 256 + 255 + 255 / 256 :: real)"
    using assms(1-3) unfolding channel_def
    by (intro add_mono) simp_all
  then have hi: "?v \<le> 32767 + 255 / 256" by simp
  have inj: "r = r' \<and> g = g' \<and> b = b'"
    if eq: "decode_terrarium r g b = decode_terrarium r' g' b'"
  proof -
    from eq have "?v = of_int r' * 256 + of_int g' + of_int b' / 256 - 32768"
      by (simp add: decode_terrarium_value)
    then have "(of_int (r * 65536 + g * 256 + b - 8388608) :: real)
                 = of_int (r' * 65536 + g' * 256 + b' - 8388608)"
      by (simp only: decode_scaled) simp
    then have "r * 65536 + g * 256 + b - 8388608 = r' * 65536 + g' * 256 + b' - 8388608"
      by (simp only: of_int_eq_iff)
    then show ?thesis
      using assms base256_inj [of g b g' b' r r'] by (simp add: channel_def)
  qed
  from v k lo hi inj show ?thesis by blast
qed

theorem decode_terrarium_lattice_witness:
  "channel 0 \<and> channel 255 \<and> channel 1
   \<and> decode_terrarium 255 255 255 = Inr (Fl (32767 + 255 / 256))
   \<and> decode_terrarium 255 255 255 \<noteq> decode_terrarium 0 1 0"
  using decode_terrarium_lattice [of 255 255 255 0 1 0]
  by (simp add: channel_def decode_terrarium_value)

section \<open>Properties of the neighborhood assembler\<close>

















text \<open>
  Claim C9. For a center pixel inside its tile and an offset in \<open>{-1, 0, 1}\<close> on each
  axis, the resolved tile differs from the center's tile by at most one on each axis,
  the resolved coordinates are in \<open>[0, TILE_SIZE)\<close>, and the pixel read on a tile of
  \<open>TILE_SIZE\<close> by \<open>TILE_SIZE\<close> pixels returns the pixel at those coordinates: neither the
  \<open>IndexError\<close> branch nor the negative-index branch is taken.
\<close>

theorem resolve_neighbor_in_bounds:
  assumes "in_tile ix" "in_tile iy" "unit_offset dx" "unit_offset dy"
    and "resolve_neighbor tx ty ix iy dx dy = (ttx, tty, x, y)"
    and "width t = TILE_SIZE" "height t = TILE_SIZE"
  shows "in_tile x \<and> in_tile y
         \<and> (ttx = tx - 1 \<or> ttx = tx \<or> ttx = tx + 1)
         \<and> (tty = ty - 1 \<or> tty = ty \<or> tty = ty + 1)
         \<and> load_getitem t x y = Inr (pixel t x y)"
  using assms
  by (auto simp add: resolve_neighbor_def in_tile_def unit_offset_def TILE_SIZE_def Let_def
      load_getitem_def split: if_splits)

theorem resolve_neighbor_in_bounds_witness:
  "in_tile 255 \<and> in_tile 0 \<and> unit_offset 1 \<and> unit_offset (- 1)
   \<and> resolve_neighbor 5 7 255 0 1 (- 1) = (6, 6, 0, 255)
   \<and> width sea_tile = TILE_SIZE \<and> height sea_tile = TILE_SIZE
   \<and> in_tile 0 \<and> in_tile 255 \<and> load_getitem sea_tile 0 255 = Inr (128, 0, 0)"
  using resolve_neighbor_in_bounds [of 255 0 1 "- 1" 5 7 6 6 0 255 sea_tile]
  by (simp add: in_tile_def unit_offset_def TILE_SIZE_def resolve_neighbor_def sea_tile_def)

section \<open>Properties of the tile cache\<close>

text \<open>
  Claim C7, as stated, fails when the key is already cached: two calls then send no
  request at all, where the claim says exactly one.
\<close>

theorem fetch_tile_twice_cached_counterexample:
  "fetch_tile sea_remote 15 3 4 (snd (fetch_tile sea_remote 15 3 4 warm_world))
     = (Inr sea_tile, warm_world)
   \<and> length (requests (snd (fetch_tile sea_remote 15 3 4
                (snd (fetch_tile sea_remote 15 3 4 warm_world)))))
       \<noteq> length (requests warm_world) + 1"
  by (simp add: fetch_tile_def warm_world_def)

text \<open>
  Claim C7, amended. From any cache state, if the key is cached, or it is not and the
  tile server answers the request with a tile, then two successive calls with that key
  both return that tile, the tile is stored under the key, and the second call is a
  cache hit that leaves the cache and the request log as they are. The two calls send
  one request when the key was not cached at the start, and none when it was.
\<close>

theorem fetch_tile_twice:
  assumes "tile_cache w (z, x, y) = Some t
           \<or> (tile_cache w (z, x, y) = None \<and> remote (length (requests w)) (z, x, y) = Inr t)"
  shows "\<exists>w1. fetch_tile remote z x y w = (Inr t, w1)
              \<and> fetch_tile remote z x y w1 = (Inr t, w1)
              \<and> tile_cache w1 (z, x, y) = Some t
              \<and> requests w1 =
                  requests w @ (if tile_cache w (z, x, y) = None then [(z, x, y)] else [])"
  using assms by (auto simp add: fetch_tile_def Let_def)

theorem fetch_tile_twice_witness:
  "tile_cache cold_world (15, 3, 4) = None
   \<and> sea_remote (length (requests cold_world)) (15, 3, 4) = Inr sea_tile
   \<and> fetch_tile sea_remote 15 3 4 cold_world =
       (Inr sea_tile, \<lparr>tile_cache = [(15, 3, 4) \<mapsto> sea_tile], requests = [(15, 3, 4)]\<rparr>)
   \<and> fetch_tile sea_remote 15 3 4
         \<lparr>tile_cache = [(15, 3, 4) \<mapsto> sea_tile], requests = [(15, 3, 4)]\<rparr> =
       (Inr sea_tile, \<lparr>tile_cache = [(15, 3, 4) \<mapsto> sea_tile], requests = [(15, 3, 4)]\<rparr>)"
  using fetch_tile_twice [of cold_world 15 3 4 sea_tile sea_remote]
  by (simp add: cold_world_def sea_remote_def fetch_tile_def Let_def)

section \<open>Rounding, and bounds on \<open>arctan\<close> and \<open>pi\<close>\<close>

lemma round_half_even_eqI:
  assumes "of_int k - 1 / 2 < r" "r < of_int k + 1 / 2"
  shows "round_half_even r = k"
proof -
  have "\<lfloor>r\<rfloor> = k - 1 \<or> \<lfloor>r\<rfloor> = k"
    using assms by linarith
  then show ?thesis
  proof
    assume f: "\<lfloor>r\<rfloor> = k - 1"
    then have "1 / 2 < r - of_int \<lfloor>r\<rfloor>" using assms by simp
    then show ?thesis using f by (simp add: round_half_even_def Let_def)
  next
    assume f: "\<lfloor>r\<rfloor> = k"
    then have "r - of_int \<lfloor>r\<rfloor> < 1 / 2" using assms by simp
    then show ?thesis using f by (simp add: round_half_even_def Let_def)
  qed
qed

lemma round_half_even_of_int: "round_half_even (of_int k) = k"
  by (rule round_half_even_eqI) simp_all

lemma py_round_exact:
  assumes "v * 10 ^ n = of_int k"
  shows "py_round (Fl v) n = Fl v"
proof -
  have "round_half_even (v * 10 ^ n) = k"
    using assms round_half_even_of_int by simp
  moreover have "of_int k / 10 ^ n = v"
    using assms [symmetric] by simp
  ultimately show ?thesis
    using assms by (auto simp add: py_round_def mk_def)
qed

lemma py_round_zero: "py_round (Fl 0) n = Fl 0"
  by (rule py_round_exact [of _ _ 0]) simp

lemma py_round_180: "py_round (Fl 180) (Suc 0) = Fl 180"
  by (rule py_round_exact [of _ _ 1800]) simp

lemma arctan_partial_sums:
  assumes "0 \<le> x" "x \<le> 1"
  shows "(\<Sum>i<2 * n. (- 1) ^ i * (1 / real (i * 2 + 1) * x ^ (i * 2 + 1))) \<le> arctan x"
    and "arctan x \<le> (\<Sum>i<2 * n + 1. (- 1) ^ i * (1 / real (i * 2 + 1) * x ^ (i * 2 + 1)))"
proof -
  let ?a = "\<lambda>i. 1 / real (i * 2 + 1) * x ^ (i * 2 + 1)"
  have ax: "\<bar>x\<bar> \<le> 1" using assms by simp
  have z: "?a \<longlonglongrightarrow> 0"
    using zeroseq_arctan_series [OF ax] .
  have s: "arctan x = (\<Sum>i. (- 1) ^ i * ?a i)"
    using arctan_series [OF ax] .
  have nonneg: "0 \<le> ?a i" for i
    using assms by simp
  have decr: "?a (Suc i) \<le> ?a i" for i
  proof -
    have p: "x ^ (Suc i * 2 + 1) \<le> x ^ (i * 2 + 1)"
      using assms by (intro power_decreasing) simp_all
    have q: "1 / real (Suc i * 2 + 1) \<le> 1 / real (i * 2 + 1)"
      by (simp add: field_simps)
    show ?thesis
      using p q assms by (intro mult_mono) simp_all
  qed
  show "(\<Sum>i<2 * n. (- 1) ^ i * ?a i) \<le> arctan x"
    unfolding s by (rule summable_Leibniz'(2) [OF z nonneg decr])
  show "arctan x \<le> (\<Sum>i<2 * n + 1. (- 1) ^ i * ?a i)"
    unfolding s by (rule summable_Leibniz'(4) [OF z nonneg decr])
qed

lemma arctan_eighth_lower: "1243549 / 10000000 < arctan (1 / 8)"
  using arctan_partial_sums(1) [of "1 / 8" 2] by (simp add: numeral_eq_Suc)

lemma arctan_eighth_upper: "arctan (1 / 8) < 124356 / 1000000"
  using arctan_partial_sums(2) [of "1 / 8" 1] by (simp add: numeral_eq_Suc)

lemma arctan_fifth_upper: "arctan (1 / 5) < 19739562 / 100000000"
  using arctan_partial_sums(2) [of "1 / 5" 2] by (simp add: numeral_eq_Suc)

lemma arctan_fifth_lower: "19739555 / 100000000 < arctan (1 / 5)"
  using arctan_partial_sums(1) [of "1 / 5" 3] by (simp add: numeral_eq_Suc)

lemma arctan_239_lower: "41840 / 10000000 < arctan (1 / 239)"
  using arctan_partial_sums(1) [of "1 / 239" 1] by (simp add: numeral_eq_Suc)

lemma arctan_239_upper: "arctan (1 / 239) < 41842 / 10000000"
  using arctan_partial_sums(2) [of "1 / 239" 0] by simp

lemma pi_upper: "pi < 3141594 / 1000000"
  using machin arctan_fifth_upper arctan_239_lower by linarith

lemma pi_lower: "3141592 / 1000000 < pi"
  using machin arctan_fifth_lower arctan_239_upper by linarith

lemma arctan_8: "arctan 8 = pi / 2 - arctan (1 / 8)"
  using arctan_inverse [of 8] by simp

lemma degrees_arctan_8:
  "828737 / 10000 < arctan 8 * (180 / pi)" "arctan 8 * (180 / pi) < 828750 / 10000"
proof -
  have e: "arctan 8 * (180 / pi) = 90 - 180 * arctan (1 / 8) / pi"
    by (simp add: arctan_8 field_simps)
  have "180 * arctan (1 / 8) < (71263 / 10000) * pi"
    using arctan_eighth_upper pi_lower by linarith
  then have "180 * arctan (1 / 8) / pi < 71263 / 10000"
    by (simp add: field_simps)
  then show "828737 / 10000 < arctan 8 * (180 / pi)"
    unfolding e by linarith
  have "(7125 / 1000) * pi < 180 * arctan (1 / 8)"
    using arctan_eighth_lower pi_upper by linarith
  then have "7125 / 1000 < 180 * arctan (1 / 8) / pi"
    by (simp add: field_simps)
  then show "arctan 8 * (180 / pi) < 828750 / 10000"
    unfolding e by linarith
qed

lemma math_degrees_Fl: "math_degrees (Fl x) = Fl (x * (180 / pi))"
  by (simp add: math_degrees_def fmul_def mk_def)

lemma py_round_slope_east: "py_round (math_degrees (Fl (arctan 8))) 2 = Fl (8287 / 100)"
proof -
  have "round_half_even (arctan 8 * (180 / pi) * 10 ^ 2) = 8287"
    using degrees_arctan_8 by (intro round_half_even_eqI) simp_all
  then have "py_round (Fl (arctan 8 * (180 / pi))) 2 = Fl (8287 / 100)"
    unfolding py_round_def mk_def val.simps by simp
  then show ?thesis
    by (simp only: math_degrees_Fl)
qed

lemma sqrt_64: "sqrt 64 = 8"
  using real_sqrt_abs [of 8] by simp

lemma degrees_arctan_2048:
  "0 < arctan (1 / 2048) * (180 / pi)" "arctan (1 / 2048) * (180 / pi) < 1 / 20"
proof -
  have pos: "0 < arctan (1 / 2048)"
    by (simp add: arctan_less_zero_iff [symmetric] not_less [symmetric] del: arctan_less_zero_iff)
  show "0 < arctan (1 / 2048) * (180 / pi)"
    using pos by simp
  have "arctan (1 / 2048) \<le> 1 / 2048"
    using arctan_partial_sums(2) [of "1 / 2048" 0] by simp
  then have "180 * arctan (1 / 2048) < (1 / 20) * pi"
    using pi_lower by linarith
  then show "arctan (1 / 2048) * (180 / pi) < 1 / 20"
    by (simp add: field_simps)
qed

lemma py_round_aspect_seam:
  "py_round (Fl (360 - arctan (1 / 2048) * (180 / pi))) 1 = Fl 360"
proof -
  define d where "d = arctan (1 / 2048) * (180 / pi)"
  have d: "0 < d" "d < 1 / 20"
    unfolding d_def by (rule degrees_arctan_2048)+
  have "of_int 3600 - 1 / 2 < (360 - d) * 10 ^ 1"
    using d by simp
  moreover have "(360 - d) * 10 ^ 1 < of_int 3600 + 1 / 2"
    using d by simp
  ultimately have "round_half_even ((360 - d) * 10 ^ 1) = 3600"
    by (rule round_half_even_eqI)
  then have "py_round (Fl (360 - d)) 1 = Fl 360"
    unfolding py_round_def mk_def val.simps by simp
  then show ?thesis
    unfolding d_def .
qed

section \<open>Properties of the slope and aspect estimator\<close>

lemma fsub_self: "fsub a a = Fl 0"
  by (cases a) (simp_all add: fsub_def fadd_def mk_def)

lemma slope_aspect_from_gradients:
  assumes "fdiv (fsub (fadd (fadd e02 (fmul (Fl 2) e12)) e22)
                      (fadd (fadd e00 (fmul (Fl 2) e10)) e20)) (Fl 8) = Inr dzdx"
    and "fdiv (fsub (fadd (fadd e20 (fmul (Fl 2) e21)) e22)
                    (fadd (fadd e00 (fmul (Fl 2) e01)) e02)) (Fl 8) = Inr dzdy"
    and "math_sqrt (fadd (fpow2 dzdx) (fpow2 dzdy)) = Inr mag"
    and "math_degrees (math_atan2 dzdy (fneg dzdx)) = a"
  shows "calculate_slope_aspect [[e00, e01, e02], [e10, e11, e12], [e20, e21, e22]] =
           Inr (py_round (math_degrees (math_atan mag)) 2,
                py_round (if flt_lt a (Fl 0) then fadd a (Fl 360) else a) 1)"
  using assms
  by (simp add: calculate_slope_aspect_def at2_def and_then_def float_of_int_def Let_def)

lemma slope_aspect_level:
  "calculate_slope_aspect [[v, v, v], [v, v, v], [v, v, v]] = Inr (Fl 0, Fl 180)"
proof -
  have dz: "fdiv (fsub (fadd (fadd v (fmul (Fl 2) v)) v) (fadd (fadd v (fmul (Fl 2) v)) v)) (Fl 8)
              = Inr (Fl 0)"
    by (simp add: fsub_self fdiv_def mk_def)
  have mag: "math_sqrt (fadd (fpow2 (Fl 0)) (fpow2 (Fl 0))) = Inr (Fl 0)"
    by (simp add: fpow2_def fadd_def fmul_def mk_def)
  have asp: "math_degrees (math_atan2 (Fl 0) (fneg (Fl 0))) = Fl 180"
    by (simp add: math_atan2_def copysign_def math_degrees_def fmul_def mk_def)
  have "calculate_slope_aspect [[v, v, v], [v, v, v], [v, v, v]] =
          Inr (py_round (math_degrees (math_atan (Fl 0))) 2,
               py_round (if flt_lt (Fl 180) (Fl 0) then fadd (Fl 180) (Fl 360) else Fl 180) 1)"
    by (rule slope_aspect_from_gradients [OF dz dz mag asp])
  then show ?thesis
    by (simp add: math_degrees_Fl py_round_zero py_round_180 flt_lt_def)
qed

lemma slope_aspect_east:
  "calculate_slope_aspect east_grid = Inr (Fl (8287 / 100), Fl 180)"
proof -
  have dzdx: "fdiv (fsub (fadd (fadd (Fl 8) (fmul (Fl 2) (Fl 8))) (Fl 8))
                  (fadd (fadd (Fl (- 8)) (fmul (Fl 2) (Fl (- 8)))) (Fl (- 8)))) (Fl 8)
                = Inr (Fl 8)"
    by (simp add: fdiv_def fsub_def fadd_def fmul_def mk_def)
  have dzdy: "fdiv (fsub (fadd (fadd (Fl (- 8)) (fmul (Fl 2) (Fl 0))) (Fl 8))
                  (fadd (fadd (Fl (- 8)) (fmul (Fl 2) (Fl 0))) (Fl 8))) (Fl 8)
                = Inr (Fl 0)"
    by (simp add: fdiv_def fsub_def fadd_def fmul_def mk_def)
  have mag: "math_sqrt (fadd (fpow2 (Fl 8)) (fpow2 (Fl 0))) = Inr (Fl 8)"
    by (simp add: fpow2_def fadd_def fmul_def mk_def sqrt_64)
  have asp: "math_degrees (math_atan2 (Fl 0) (fneg (Fl 8))) = Fl 180"
    by (simp add: math_atan2_def copysign_def math_degrees_def fmul_def mk_def)
  have "calculate_slope_aspect east_grid =
          Inr (py_round (math_degrees (math_atan (Fl 8))) 2,
               py_round (if flt_lt (Fl 180) (Fl 0) then fadd (Fl 180) (Fl 360) else Fl 180) 1)"
    unfolding east_grid_def
    by (rule slope_aspect_from_gradients [OF dzdx dzdy mag asp])
  then show ?thesis
    by (simp add: py_round_slope_east py_round_180 flt_lt_def)
qed

text \<open>
  Claim C2, as stated, fails: on the flat grid at 5 m the estimator returns the aspect
  180.0, not 0.0. The gradient \<open>dzdx\<close> is \<open>0.0\<close>, its negation is \<open>-0.0\<close>, and
  \<open>atan2(0.0, -0.0)\<close> is \<open>pi\<close>.
\<close>

theorem flat_grid_aspect_counterexample:
  "calculate_slope_aspect flat_grid = Inr (Fl 0, Fl 180)
   \<and> calculate_slope_aspect flat_grid \<noteq> Inr (Fl 0, Fl 0)"
  by (simp add: flat_grid_def slope_aspect_level)

text \<open>
  Claim C2, amended. For every 3x3 grid whose nine entries are all equal, the estimator
  raises nothing and returns slope 0.0 and aspect 180.0.
\<close>

theorem flat_grid_slope_aspect:
  "calculate_slope_aspect (replicate 3 (replicate 3 v)) = Inr (Fl 0, Fl 180)"
  by (simp add: numeral_3_eq_3 slope_aspect_level)

text \<open>
  Claim C3 fails on \<open>seam_grid\<close>: the aspect before rounding is 360 minus about 0.028
  degrees, inside \<open>[0, 360)\<close>, and \<open>round(aspect, 1)\<close> returns 360.0.
\<close>

theorem seam_grid_aspect_360:
  "map_sum id snd (calculate_slope_aspect seam_grid) = Inr (Fl 360)"
proof -
  let ?a = "Fl (- (arctan (1 / 2048) * (180 / pi)))"
  have dzdx: "fdiv (fsub (fadd (fadd (Fl 0) (fmul (Fl 2) (Fl 0))) (Fl 0))
                  (fadd (fadd (Fl 0) (fmul (Fl 2) (Fl 8))) (Fl 0))) (Fl 8)
                = Inr (Fl (- 2))"
    by (simp add: fdiv_def fsub_def fadd_def fmul_def mk_def)
  have dzdy: "fdiv (fsub (fadd (fadd (Fl 0) (fmul (Fl 2) (Fl 0))) (Fl 0))
                  (fadd (fadd (Fl 0) (fmul (Fl 2) (Fl (1 / 256)))) (Fl 0))) (Fl 8)
                = Inr (Fl (- (1 / 1024)))"
    by (simp add: fdiv_def fsub_def fadd_def fmul_def mk_def)
  have mag: "math_sqrt (fadd (fpow2 (Fl (- 2))) (fpow2 (Fl (- (1 / 1024)))))
               = Inr (Fl (sqrt (4 + 1 / 1048576)))"
    by (simp add: fpow2_def fadd_def fmul_def mk_def)
  have "math_atan2 (Fl (- (1 / 1024))) (fneg (Fl (- 2))) = Fl (arctan (- (1 / 2048)))"
    by (simp add: math_atan2_def)
  then have asp: "math_degrees (math_atan2 (Fl (- (1 / 1024))) (fneg (Fl (- 2)))) = ?a"
    by (simp only: math_degrees_Fl arctan_minus mult_minus_left)
  have neg: "flt_lt ?a (Fl 0)"
    using degrees_arctan_2048(1) by (simp add: flt_lt_def)
  have add: "fadd ?a (Fl 360) = Fl (360 - arctan (1 / 2048) * (180 / pi))"
    using degrees_arctan_2048(2) by (simp add: fadd_def mk_def)
  have "calculate_slope_aspect seam_grid =
          Inr (py_round (math_degrees (math_atan (Fl (sqrt (4 + 1 / 1048576))))) 2,
               py_round (if flt_lt ?a (Fl 0) then fadd ?a (Fl 360) else ?a) 1)"
    unfolding seam_grid_def
    by (rule slope_aspect_from_gradients [OF dzdx dzdy mag asp])
  then have "calculate_slope_aspect seam_grid =
          Inr (py_round (math_degrees (math_atan (Fl (sqrt (4 + 1 / 1048576))))) 2, Fl 360)"
    by (simp only: neg if_True add py_round_aspect_seam)
  then show ?thesis
    by simp
qed

text \<open>
  Claim C4, as stated, fails: on the grid sloping east the returned slope is not within
  0.01 of 45 and the returned aspect is not within 0.1 of 90.
\<close>

theorem east_grid_counterexample:
  "calculate_slope_aspect east_grid = Inr (Fl (8287 / 100), Fl 180)
   \<and> 1 / 100 < \<bar>val (Fl (8287 / 100)) - 45\<bar>
   \<and> 1 / 10 < \<bar>val (Fl 180) - 90\<bar>"
  by (simp add: slope_aspect_east)

text \<open>
  Claim C4, amended. On the grid sloping east (east column 8, west column -8, middle
  column 0) the estimator returns the slope 82.87, which is \<open>atan(8)\<close> in degrees
  rounded to 2 decimals, and the aspect 180.0.
\<close>

theorem east_grid_slope_aspect:
  "calculate_slope_aspect east_grid = Inr (Fl (8287 / 100), Fl 180)
   \<and> py_round (math_degrees (math_atan (Fl 8))) 2 = Fl (8287 / 100)"
  using slope_aspect_east py_round_slope_east by simp

section \<open>Properties of the loop over the observations\<close>

lemma process_rows_outcomes:
  "process_rows svc rows st =
     st\<lparr>net := net (process_rows svc rows st),
        written := written st @ [ob. Inr ob \<leftarrow> outcomes svc rows (net st)],
        reported := reported st @ [e. Inl e \<leftarrow> outcomes svc rows (net st)],
        progress := progress st + length rows\<rparr>"
proof (induction rows arbitrary: st)
  case Nil
  show ?case by simp
next
  case (Cons r rest)
  obtain res w where e: "enrich_row svc r (net st) = (res, w)"
    by (cases "enrich_row svc r (net st)")
  show ?case
  proof (cases res)
    case (Inl err)
    with e Cons [of "st\<lparr>net := w, reported := reported st @ [err], progress := progress st + 1\<rparr>"]
    show ?thesis by simp
  next
    case (Inr obs)
    with e Cons [of "st\<lparr>net := w, written := written st @ [obs], progress := progress st + 1\<rparr>"]
    show ?thesis by simp
  qed
qed

lemma length_outcomes: "length (outcomes svc rows w) = length rows"
  by (induction rows arbitrary: w) (auto split: prod.splits)

lemma enrich_bad_row: "enrich_row demo_services bad_row w = (Inl ValueError, w)"
  by (simp add: enrich_row_def demo_services_def bad_row_def getitem_def and_then_def)

lemma date_str_good_row: "date_str_of good_row = Inr ''2024-05-02''"
  by (simp add: date_str_of_def good_row_def getitem_def and_then_def)

lemma sea_grid:
  "get_elevation_grid (\<lambda>lat lon z. Inr (1000, 2000)) sea_remote lat lon 15 cold_world =
     (Inr [[Fl 0, Fl 0, Fl 0], [Fl 0, Fl 0, Fl 0], [Fl 0, Fl 0, Fl 0]],
      \<lparr>tile_cache = [(15, 3, 7) \<mapsto> sea_tile], requests = [(15, 3, 7)]\<rparr>)"
  by (simp add: get_elevation_grid_def TILE_SIZE_def offsets_def sample_neighbor_def
      resolve_neighbor_def fetch_tile_def sea_remote_def cold_world_def sea_tile_def
      load_getitem_def decode_terrarium_value and_then_def set2_def float_of_int_def
      numeral_3_eq_3 Let_def)

lemma feet_100: "py_round_int (fmul (Fl 100) METERS_TO_FEET) = 328"
proof -
  have "round_half_even (100 * (328084 / 100000)) = 328"
    by (rule round_half_even_eqI) simp_all
  then show ?thesis
    by (simp add: py_round_int_def fmul_def METERS_TO_FEET_def mk_def)
qed

lemma feet_0: "py_round_int (fmul (Fl 0) METERS_TO_FEET) = 0"
  using round_half_even_of_int [of 0]
  by (simp add: py_round_int_def fmul_def METERS_TO_FEET_def mk_def)

lemma enrich_good_row:
  "enrich_row demo_services good_row cold_world =
     (Inr \<lparr>observation_url = ''obs/2'', date_used = ''2024-05-02'',
           coordinates = (Fl (95 / 2), Fl (- (243 / 2))), elevation_ft = 328, soil = (),
           open_meteo_api_url = ''archive'', aws_elevation_ft = 0,
           slope_deg = Fl 0, slope_aspect_deg = Fl 180\<rparr>,
      \<lparr>tile_cache = [(15, 3, 7) \<mapsto> sea_tile], requests = [(15, 3, 7)]\<rparr>)"
proof -
  have pre: "getitem good_row ''latitude'' = Inr ''47.5''"
    "getitem good_row ''longitude'' = Inr ''-121.5''"
    "getitem good_row ''url'' = Inr ''obs/2''"
    by (simp_all add: good_row_def getitem_def)
  show ?thesis
    by (simp add: enrich_row_def pre date_str_good_row demo_services_def and_then_def
        get_elevation_def feet_100 feet_0 ZOOM_LEVEL_def sea_grid slope_aspect_level at2_def)
qed

text \<open>
  Claim C8. The loop handles every row: the progress count grows by the number of
  rows, whatever fails. Each row has one outcome: a record, appended to the output,
  or an exception, appended to what the handler reports, with no output line. When
  the \<open>try\<close> body raises \<open>e\<close> on a row, the loop goes on with the rows after it, the
  output as it was and \<open>e\<close> reported.
\<close>

theorem process_rows_isolation:
  "process_rows svc rows st =
     st\<lparr>net := net (process_rows svc rows st),
        written := written st @ [ob. Inr ob \<leftarrow> outcomes svc rows (net st)],
        reported := reported st @ [e. Inl e \<leftarrow> outcomes svc rows (net st)],
        progress := progress st + length rows\<rparr>
   \<and> length (outcomes svc rows (net st)) = length rows
   \<and> (enrich_row svc r (net st) = (Inl e, w) \<longrightarrow>
        process_rows svc (r # rest) st =
          process_rows svc rest
            (st\<lparr>net := w, reported := reported st @ [e], progress := progress st + 1\<rparr>))"
  using process_rows_outcomes [of svc rows st] length_outcomes [of svc rows "net st"]
  by simp

theorem process_rows_isolation_witness:
  "enrich_row demo_services bad_row (net start_run) = (Inl ValueError, cold_world)
   \<and> process_rows demo_services [bad_row, good_row] start_run =
       \<lparr>net = \<lparr>tile_cache = [(15, 3, 7) \<mapsto> sea_tile], requests = [(15, 3, 7)]\<rparr>,
        written = [\<lparr>observation_url = ''obs/2'', date_used = ''2024-05-02'',
                    coordinates = (Fl (95 / 2), Fl (- (243 / 2))), elevation_ft = 328,
                    soil = (), open_meteo_api_url = ''archive'', aws_elevation_ft = 0,
                    slope_deg = Fl 0, slope_aspect_deg = Fl 180\<rparr>],
        reported = [ValueError],
        progress = 2\<rparr>"
  using process_rows_isolation [of demo_services "[bad_row, good_row]" start_run
      bad_row ValueError cold_world "[good_row]"]
  by (simp add: start_run_def enrich_bad_row enrich_good_row)

end
